theory Spec2Isabelle
  imports Complex_Main
begin

section \<open>The room engine of OpenTogetherTube: data model\<close>

text \<open>
  The development embeds the classes \<^verbatim>\<open>RoomUser\<close> and \<^verbatim>\<open>Room\<close> of the room engine.
  A JavaScript object is a record, a thrown exception is an error value returned next to
  the state the object has at the moment of the throw, and the messages sent to the
  message bus are collected in a record of effects.
\<close>

type_synonym ClientId = string

text \<open>
  Modelled from the spec: the enumerations \<^verbatim>\<open>Role\<close>, \<^verbatim>\<open>PlayerStatus\<close>,
  \<^verbatim>\<open>Visibility\<close> and \<^verbatim>\<open>QueueMode\<close> are declared in \<^verbatim>\<open>common/models/types\<close>, which is
  not among the sources. The roles and their order (ascending authority) are the spec's;
  the queue modes other than Manual and Vote are one constructor.
\<close>

datatype Role = UnregisteredUser | RegisteredUser | TrustedUser | Moderator | Administrator | Owner

fun rank :: "Role \<Rightarrow> nat" where
  "rank UnregisteredUser = 0"
| "rank RegisteredUser = 1"
| "rank TrustedUser = 2"
| "rank Moderator = 3"
| "rank Administrator = 4"
| "rank Owner = 5"

datatype PlayerStatus = status_none | status_ready | status_buffering | status_error

datatype Visibility = Public | Unlisted

datatype QueueMode = Manual | Vote | OtherMode

text \<open>A registered user as the user collaborator returns it.\<close>

record User =
  id_u :: nat
  username :: string

text \<open>
  A video. A \<^verbatim>\<open>VideoId\<close> is the same object with only \<^verbatim>\<open>service\<close> and \<^verbatim>\<open>id\<close> set;
  \<open>length_v\<close> is \<open>None\<close> where the JavaScript object has no \<^verbatim>\<open>length\<close>, and \<open>meta\<close>
  stands for the rest of the metadata.
\<close>

record Video =
  service :: string
  id_v :: string
  length_v :: "real option"
  meta :: string

record ClientInfo =
  id_ci :: ClientId
  user_id_ci :: "nat option"
  username_ci :: "string option"
  status_ci :: "PlayerStatus option"

record RoomUser =
  id_ru :: ClientId
  user_id :: "nat option"
  unregisteredUsername :: string
  user :: "User option"
  playerStatus :: PlayerStatus

record RoomUserInfo =
  id_ui :: ClientId
  name_ui :: string
  isLoggedIn_ui :: bool
  status_ui :: PlayerStatus
  role_ui :: Role

text \<open>
  Modelled from the spec: the class \<^verbatim>\<open>Grants\<close> (\<^verbatim>\<open>permissions.js\<close>) is not among the
  sources. It stores an integer bitmask per role; \<^verbatim>\<open>check(role, permissionName)\<close> looks up
  the bit of the permission name and tests it in the role's mask, and fails with
  PermissionDenied otherwise; \<^verbatim>\<open>getMask(role)\<close> returns the role's mask. The table of the
  bits is a parameter (\<open>permBit\<close> below).
\<close>

type_synonym Grants = "Role \<Rightarrow> int"

datatype error =
    PermissionDenied
  | VideoAlreadyQueued
  | VideoNotFound
  | ImpossiblePromotion
  | TypeError
  | ExtractorFailed
  | UndefinedValue

text \<open>
  \<open>TypeError\<close> is JavaScript's own exception for a property read on \<^verbatim>\<open>undefined\<close>.
  \<open>ExtractorFailed\<close> is a rejection of the metadata collaborator. \<open>UndefinedValue\<close>
  marks the places where the source would go on and store \<^verbatim>\<open>undefined\<close> into a field or
  a queue slot whose declared type excludes it: the model stops the request there.
\<close>

text \<open>
  The collaborators of the room and the clock, fixed during one request: the time in
  milliseconds, the table of the permission bits, the user collaborator (a user or
  \<^verbatim>\<open>null\<close>), and the metadata extractor, where \<open>None\<close> is a rejection.
\<close>

record Env =
  now :: int
  permBit :: "string \<Rightarrow> nat option"
  getUser_um :: "nat \<Rightarrow> User option"
  getServiceAdapterForURL :: "string \<Rightarrow> (string \<times> string) option"
  getVideoInfo :: "string \<Rightarrow> string \<Rightarrow> Video option"
  getManyVideoInfo :: "Video list \<Rightarrow> Video list option"

definition getMask :: "Grants \<Rightarrow> Role \<Rightarrow> int" where
  "getMask g r = g r"

definition granted :: "Env \<Rightarrow> Grants \<Rightarrow> Role \<Rightarrow> string option \<Rightarrow> bool" where
  "granted env g r perm =
     (case perm of
        None \<Rightarrow> False
      | Some p \<Rightarrow> (case permBit env p of None \<Rightarrow> False | Some i \<Rightarrow> bit (g r) i))"

subsection \<open>JavaScript containers\<close>

text \<open>
  A JavaScript \<^verbatim>\<open>Set\<close> is a list without repetition in insertion order; a \<^verbatim>\<open>Map\<close> is
  an association list in insertion order.
\<close>

definition set_add :: "'a \<Rightarrow> 'a list \<Rightarrow> 'a list" where
  "set_add x xs = (if x \<in> set xs then xs else xs @ [x])"

definition set_delete :: "'a \<Rightarrow> 'a list \<Rightarrow> 'a list" where
  "set_delete x xs = removeAll x xs"

definition new_Set :: "'a list \<Rightarrow> 'a list" where
  "new_Set xs = foldl (\<lambda>s x. set_add x s) [] xs"

text \<open>Iterating a string yields its characters, each as a string of length one.\<close>

definition string_iter :: "string \<Rightarrow> string list" where
  "string_iter s = map (\<lambda>c. [c]) s"

fun map_set :: "'k \<Rightarrow> 'v \<Rightarrow> ('k \<times> 'v) list \<Rightarrow> ('k \<times> 'v) list" where
  "map_set k v [] = [(k, v)]"
| "map_set k v ((k', v') # m) = (if k = k' then (k, v) # m else (k', v') # map_set k v m)"

text \<open>\<^verbatim>\<open>_.findIndex\<close>: the index of the first element that satisfies the predicate, or -1.\<close>

fun findIndexFrom :: "int \<Rightarrow> ('a \<Rightarrow> bool) \<Rightarrow> 'a list \<Rightarrow> int" where
  "findIndexFrom i p [] = -1"
| "findIndexFrom i p (x # xs) = (if p x then i else findIndexFrom (i + 1) p xs)"

definition findIndex :: "'a list \<Rightarrow> ('a \<Rightarrow> bool) \<Rightarrow> int" where
  "findIndex xs p = findIndexFrom 0 p xs"

text \<open>
  The start index of \<^verbatim>\<open>Array.prototype.splice\<close> on a list of length \<open>n\<close>: a negative
  index counts from the end, and the result is clamped to \<open>0..n\<close>.
\<close>

definition spliceStart :: "nat \<Rightarrow> int \<Rightarrow> nat" where
  "spliceStart n i = (if i < 0 then nat (max (int n + i) 0) else min (nat i) n)"

subsection \<open>RoomUser\<close>

definition new_RoomUser :: "ClientId \<Rightarrow> RoomUser" where
  "new_RoomUser i =
     \<lparr>id_ru = i, user_id = None, unregisteredUsername = [], user = None,
      playerStatus = status_none\<rparr>"

text \<open>A number is truthy when it is present and not zero, a string when it is not empty.\<close>

definition truthy_num :: "nat option \<Rightarrow> bool" where
  "truthy_num x = (case x of None \<Rightarrow> False | Some n \<Rightarrow> n \<noteq> 0)"

definition truthy_str :: "string option \<Rightarrow> bool" where
  "truthy_str x = (case x of None \<Rightarrow> False | Some s \<Rightarrow> s \<noteq> [])"

definition isLoggedIn :: "RoomUser \<Rightarrow> bool" where
  "isLoggedIn u = truthy_num (user_id u)"

definition username_ru :: "RoomUser \<Rightarrow> string" where
  "username_ru u =
     (case user u of
        Some usr \<Rightarrow> (if isLoggedIn u then username usr else unregisteredUsername u)
      | None \<Rightarrow> unregisteredUsername u)"

definition updateInfo :: "Env \<Rightarrow> RoomUser \<Rightarrow> ClientInfo \<Rightarrow> RoomUser" where
  "updateInfo env u info =
     (let u1 =
        (if truthy_num (user_id_ci info)
         then u\<lparr>user_id := user_id_ci info, user := getUser_um env (the (user_id_ci info))\<rparr>
         else if truthy_str (username_ci info)
         then u\<lparr>unregisteredUsername := the (username_ci info), user_id := None, user := None\<rparr>
         else u)
      in (case status_ci info of
            None \<Rightarrow> u1
          | Some s \<Rightarrow> u1\<lparr>playerStatus := s\<rparr>))"

subsection \<open>Requests and messages\<close>

text \<open>
  Modelled from the spec: the request and message types are declared in
  \<^verbatim>\<open>common/models/messages\<close>, which is not among the sources. A request is a tagged
  variant with the fields the handlers read; the event of an UndoRequest carries the
  request it undoes and the context the server published with it.
\<close>

record RoomEventContext =
  video_ctx :: "Video option"
  videos_ctx :: "Video list option"
  prevPosition :: "real option"
  queueIdx :: "int option"

datatype RoomRequestType =
    T_JoinRequest | T_LeaveRequest | T_PlaybackRequest | T_SkipRequest | T_SeekRequest
  | T_AddRequest | T_RemoveRequest | T_OrderRequest | T_VoteRequest | T_PromoteRequest
  | T_UpdateUser | T_ChatRequest | T_UndoRequest

datatype RoomRequest =
    JoinRequest ClientId ClientInfo
  | LeaveRequest ClientId
  | PlaybackRequest ClientId bool
  | SkipRequest ClientId
  | SeekRequest ClientId "real option"
  | AddRequest ClientId "string option" "Video option" "Video list option"
  | RemoveRequest ClientId "Video option"
  | OrderRequest ClientId int int
  | VoteRequest ClientId Video bool
  | PromoteRequest ClientId ClientId Role
  | UpdateUser ClientId ClientInfo
  | ChatRequest ClientId string
  | UndoRequest ClientId RoomRequest "RoomEventContext option"

fun type_of :: "RoomRequest \<Rightarrow> RoomRequestType" where
  "type_of (JoinRequest c i) = T_JoinRequest"
| "type_of (LeaveRequest c) = T_LeaveRequest"
| "type_of (PlaybackRequest c s) = T_PlaybackRequest"
| "type_of (SkipRequest c) = T_SkipRequest"
| "type_of (SeekRequest c v) = T_SeekRequest"
| "type_of (AddRequest c u v vs) = T_AddRequest"
| "type_of (RemoveRequest c v) = T_RemoveRequest"
| "type_of (OrderRequest c f t) = T_OrderRequest"
| "type_of (VoteRequest c v a) = T_VoteRequest"
| "type_of (PromoteRequest c t r) = T_PromoteRequest"
| "type_of (UpdateUser c i) = T_UpdateUser"
| "type_of (ChatRequest c t) = T_ChatRequest"
| "type_of (UndoRequest c e a) = T_UndoRequest"

fun client :: "RoomRequest \<Rightarrow> ClientId" where
  "client (JoinRequest c i) = c"
| "client (LeaveRequest c) = c"
| "client (PlaybackRequest c s) = c"
| "client (SkipRequest c) = c"
| "client (SeekRequest c v) = c"
| "client (AddRequest c u v vs) = c"
| "client (RemoveRequest c v) = c"
| "client (OrderRequest c f t) = c"
| "client (VoteRequest c v a) = c"
| "client (PromoteRequest c t r) = c"
| "client (UpdateUser c i) = c"
| "client (ChatRequest c t) = c"
| "client (UndoRequest c e a) = c"

text \<open>The values of the fields of a state snapshot.\<close>

datatype Val =
    VString string
  | VBool bool
  | VNumber real
  | VVisibility Visibility
  | VQueueMode QueueMode
  | VVideo "Video option"
  | VVideos "Video list"
  | VGrants Grants
  | VMask int
  | VUsers "RoomUserInfo list"
  | VCounts "(string \<times> nat) list"
  | VUser "User option"

datatype ServerMessage =
    Sync "(string \<times> Val) list"
  | Event RoomRequest "RoomUserInfo option" "RoomEventContext option"
  | Chat "RoomUserInfo option" string
  | Unload

text \<open>
  The effects of the room on the message bus: the key/value store, the messages
  published on each channel in order, and, for observation, the calls of
  \<^verbatim>\<open>grants.check\<close> in order.
\<close>

record Effects =
  kv :: "string \<Rightarrow> (string \<times> Val) list option"
  published :: "(string \<times> ServerMessage) list"
  checked :: "(Role \<times> string option) list"

subsection \<open>Room: state, setters, derived values\<close>

record Room =
  name :: string
  title :: string
  description :: string
  visibility :: Visibility
  queueMode :: QueueMode
  isTemporary :: bool
  currentSource :: "Video option"
  queue :: "Video list"
  isPlaying :: bool
  playbackPosition :: real
  grants :: Grants
  realusers :: "RoomUser list"
  userRoles :: "Role \<Rightarrow> nat list"
  owner :: "User option"
  dirty :: "string list"
  playbackStart :: "int option"
  keepAlivePing :: int
  votes :: "(string \<times> ClientId list) list"

text \<open>
  \<^verbatim>\<open>markDirty\<close> also arms the debounced \<^verbatim>\<open>sync\<close>; the timer is outside the model, and
  \<open>sync\<close> below is what it runs.
\<close>

definition markDirty :: "Room \<Rightarrow> string \<Rightarrow> Room" where
  "markDirty r prop = r\<lparr>dirty := set_add prop (dirty r)\<rparr>"

definition set_currentSource :: "Room \<Rightarrow> Video option \<Rightarrow> Room" where
  "set_currentSource r v = markDirty (r\<lparr>currentSource := v\<rparr>) ''currentSource''"

definition set_isPlaying :: "Room \<Rightarrow> bool \<Rightarrow> Room" where
  "set_isPlaying r v = markDirty (r\<lparr>isPlaying := v\<rparr>) ''isPlaying''"

definition set_playbackPosition :: "Room \<Rightarrow> real \<Rightarrow> Room" where
  "set_playbackPosition r v = markDirty (r\<lparr>playbackPosition := v\<rparr>) ''playbackPosition''"

definition isOwner :: "Room \<Rightarrow> RoomUser \<Rightarrow> bool" where
  "isOwner r u =
     (case user u of
        None \<Rightarrow> False
      | Some usr \<Rightarrow> (case owner r of None \<Rightarrow> False | Some ow \<Rightarrow> id_u usr = id_u ow))"

text \<open>
  The map \<^verbatim>\<open>userRoles\<close> has the keys Administrator, Moderator and TrustedUser from the
  constructor on, and no other key is ever set.
\<close>

definition userRoles_get :: "Room \<Rightarrow> Role \<Rightarrow> nat list option" where
  "userRoles_get r i =
     (if i = Administrator \<or> i = Moderator \<or> i = TrustedUser then Some (userRoles r i) else None)"

definition getRole :: "Room \<Rightarrow> RoomUser \<Rightarrow> Role" where
  "getRole r u =
     (if isOwner r u then Owner
      else (case (case user u of
                    None \<Rightarrow> None
                  | Some usr \<Rightarrow>
                      find (\<lambda>i. id_u usr \<in> set (userRoles r i)) [Administrator, Moderator, TrustedUser]) of
              Some i \<Rightarrow> i
            | None \<Rightarrow> (if isLoggedIn u then RegisteredUser else UnregisteredUser)))"

definition users :: "Room \<Rightarrow> RoomUserInfo list" where
  "users r =
     map (\<lambda>u. \<lparr>id_ui = id_ru u, name_ui = username_ru u, isLoggedIn_ui = isLoggedIn u,
               status_ui = playerStatus u, role_ui = getRole r u\<rparr>) (realusers r)"

definition getUser :: "Room \<Rightarrow> ClientId \<Rightarrow> RoomUser option" where
  "getUser r c = find (\<lambda>u. id_ru u = c) (realusers r)"

definition getUserInfo :: "Room \<Rightarrow> ClientId \<Rightarrow> RoomUserInfo option" where
  "getUserInfo r c = find (\<lambda>u. id_ui u = c) (users r)"

definition realPlaybackPosition :: "Env \<Rightarrow> Room \<Rightarrow> real" where
  "realPlaybackPosition env r =
     (case playbackStart r of
        Some t \<Rightarrow> playbackPosition r + real_of_int (now env - t) / 1000
      | None \<Rightarrow> playbackPosition r)"

definition voteCounts :: "Room \<Rightarrow> (string \<times> nat) list" where
  "voteCounts r = map (\<lambda>(vid, vs). (vid, length vs)) (votes r)"

definition dequeueNext :: "Room \<Rightarrow> Room" where
  "dequeueNext r =
     (case queue r of
        v # rest \<Rightarrow>
          (let r1 = set_currentSource (r\<lparr>queue := rest\<rparr>) (Some v);
               r2 = markDirty r1 ''queue''
           in set_playbackPosition r2 0)
      | [] \<Rightarrow>
          (if currentSource r \<noteq> None
           then (let r1 = (if isPlaying r then set_isPlaying r False else r);
                     r2 = set_playbackPosition r1 0
                 in set_currentSource r2 None)
           else r))"

definition publish :: "Room \<Rightarrow> Effects \<Rightarrow> ServerMessage \<Rightarrow> Effects" where
  "publish r b msg = b\<lparr>published := published b @ [(''room:'' @ name r, msg)]\<rparr>"

definition publishRoomEvent ::
  "Room \<Rightarrow> Effects \<Rightarrow> RoomRequest \<Rightarrow> RoomEventContext option \<Rightarrow> Effects" where
  "publishRoomEvent r b request additional =
     publish r b (Event request (getUserInfo r (client request)) additional)"

subsection \<open>Periodic update and sync\<close>

definition voteSize :: "Room \<Rightarrow> Video \<Rightarrow> nat" where
  "voteSize r video =
     (case map_of (votes r) (service video @ id_v video) of Some vs \<Rightarrow> length vs | None \<Rightarrow> 0)"

text \<open>
  A position is past the end only when the video has a length: a comparison with
  \<^verbatim>\<open>undefined\<close> is false.
\<close>

definition pastEnd :: "Env \<Rightarrow> Room \<Rightarrow> bool" where
  "pastEnd env r =
     (case currentSource r of
        None \<Rightarrow> True
      | Some v \<Rightarrow> (case length_v v of None \<Rightarrow> False | Some l \<Rightarrow> realPlaybackPosition env r > l))"

text \<open>\<^verbatim>\<open>_.orderBy\<close> with one descending key is a stable sort, as \<open>sort_key\<close> is.\<close>

definition update :: "Env \<Rightarrow> Room \<Rightarrow> Room" where
  "update env r =
     (let r1 = (if pastEnd env r then dequeueNext r else r);
          r2 = (if users r1 \<noteq> [] then r1\<lparr>keepAlivePing := now env\<rparr> else r1)
      in if queueMode r2 = Vote
         then (let oldOrder = queue r2;
                   r3 = r2\<lparr>queue := sort_key (\<lambda>video. - int (voteSize r2 video)) (queue r2)\<rparr>
               in if queue r3 \<noteq> [] \<and> queue r3 \<noteq> oldOrder then markDirty r3 ''queue'' else r3)
         else r2)"

definition syncableState :: "Room \<Rightarrow> (string \<times> Val) list" where
  "syncableState r =
     [(''name'', VString (name r)),
      (''title'', VString (title r)),
      (''description'', VString (description r)),
      (''isTemporary'', VBool (isTemporary r)),
      (''visibility'', VVisibility (visibility r)),
      (''queueMode'', VQueueMode (queueMode r)),
      (''currentSource'', VVideo (currentSource r)),
      (''queue'', VVideos (queue r)),
      (''isPlaying'', VBool (isPlaying r)),
      (''playbackPosition'', VNumber (playbackPosition r)),
      (''grants'', VGrants (grants r)),
      (''users'', VUsers (users r)),
      (''voteCounts'', VCounts (voteCounts r)),
      (''owner'', VUser (owner r))]"

text \<open>\<^verbatim>\<open>_.pick(object, paths)\<close>: the entries of the object at the paths it has, in their order.\<close>

definition pick :: "(string \<times> Val) list \<Rightarrow> string list \<Rightarrow> (string \<times> Val) list" where
  "pick obj paths = List.map_filter (\<lambda>p. map_option (Pair p) (map_of obj p)) paths"

definition sync :: "Room \<times> Effects \<Rightarrow> Room \<times> Effects" where
  "sync s =
     (case s of (r, b) \<Rightarrow>
        if dirty r = [] then (r, b)
        else (let state = syncableState r;
                  msg = map_set ''grants'' (VMask (getMask (grants r) Owner)) (pick state (dirty r));
                  b1 = b\<lparr>kv := (kv b)((''room:'' @ name r) \<mapsto> state)\<rparr>;
                  b2 = publish r b1 (Sync msg)
              in (r\<lparr>dirty := []\<rparr>, b2)))"

subsection \<open>Request handlers\<close>

text \<open>
  A handler returns the exception it throws, if any, with the room and the effects as
  they are at that moment.
\<close>

type_synonym result = "error option \<times> Room \<times> Effects"

definition play :: "Env \<Rightarrow> Room \<Rightarrow> Room" where
  "play env r =
     (if isPlaying r then r
      else (set_isPlaying r True)\<lparr>playbackStart := Some (now env)\<rparr>)"

definition pause :: "Env \<Rightarrow> Room \<Rightarrow> Room" where
  "pause env r =
     (if \<not> isPlaying r then r
      else (let r1 = set_isPlaying r False;
                r2 = set_playbackPosition r1 (realPlaybackPosition env r1)
            in r2\<lparr>playbackStart := None\<rparr>))"

definition playback :: "Env \<Rightarrow> Room \<times> Effects \<Rightarrow> RoomRequest \<Rightarrow> bool \<Rightarrow> result" where
  "playback env s request state =
     (case s of (r, b) \<Rightarrow>
        (let r1 = (if state then play env r else pause env r)
         in (None, r1, publishRoomEvent r1 b request None)))"

definition skip :: "Env \<Rightarrow> Room \<times> Effects \<Rightarrow> RoomRequest \<Rightarrow> result" where
  "skip env s request =
     (case s of (r, b) \<Rightarrow>
        (let current = currentSource r;
             prev = realPlaybackPosition env r;
             r1 = dequeueNext r
         in (None, r1,
             publishRoomEvent r1 b request
               (Some \<lparr>video_ctx = current, videos_ctx = None, prevPosition = Some prev,
                      queueIdx = None\<rparr>))))"

definition seek :: "Room \<times> Effects \<Rightarrow> RoomRequest \<Rightarrow> real option \<Rightarrow> result" where
  "seek s request val =
     (case s of (r, b) \<Rightarrow>
        (case val of
           None \<Rightarrow> (None, r, b)
         | Some v \<Rightarrow>
             (let prev = playbackPosition r;
                  r1 = set_playbackPosition r v
              in (None, r1,
                  publishRoomEvent r1 b request
                    (Some \<lparr>video_ctx = None, videos_ctx = None, prevPosition = Some prev,
                           queueIdx = None\<rparr>)))))"

definition sameVideo :: "Video \<Rightarrow> Video \<Rightarrow> bool" where
  "sameVideo item v = (service item = service v \<and> id_v item = id_v v)"

definition matchesCurrent :: "Room \<Rightarrow> Video \<Rightarrow> bool" where
  "matchesCurrent r v = (case currentSource r of None \<Rightarrow> False | Some c \<Rightarrow> sameVideo c v)"

text \<open>
  The loop of the batch branch: a fetched video that collides with the current source or
  with a queue entry is spliced out, the others stay in their order.
\<close>

fun dropQueued :: "Room \<Rightarrow> Video list \<Rightarrow> Video list" where
  "dropQueued r [] = []"
| "dropQueued r (video # videos) =
     (if matchesCurrent r video then dropQueued r videos
      else if findIndex (queue r) (\<lambda>item. sameVideo item video) \<ge> 0 then dropQueued r videos
      else video # dropQueued r videos)"

definition addSingle :: "Env \<Rightarrow> Room \<times> Effects \<Rightarrow> RoomRequest \<Rightarrow> Video \<Rightarrow> result" where
  "addSingle env s request v =
     (case s of (r, b) \<Rightarrow>
        if matchesCurrent r v then (Some VideoAlreadyQueued, r, b)
        else if findIndex (queue r) (\<lambda>item. sameVideo item v) \<ge> 0
        then (Some VideoAlreadyQueued, r, b)
        else (case getVideoInfo env (service v) (id_v v) of
                None \<Rightarrow> (Some ExtractorFailed, r, b)
              | Some video \<Rightarrow>
                  (let r1 = r\<lparr>queue := queue r @ [video]\<rparr>;
                       b1 = publishRoomEvent r1 b request
                              (Some \<lparr>video_ctx = Some video, videos_ctx = None,
                                     prevPosition = None, queueIdx = None\<rparr>)
                   in (None, markDirty r1 ''queue'', b1))))"

definition addMany :: "Env \<Rightarrow> Room \<times> Effects \<Rightarrow> RoomRequest \<Rightarrow> Video list \<Rightarrow> result" where
  "addMany env s request vs =
     (case s of (r, b) \<Rightarrow>
        (case getManyVideoInfo env vs of
           None \<Rightarrow> (Some ExtractorFailed, r, b)
         | Some fetched \<Rightarrow>
             (let videos = dropQueued r fetched
              in if videos = [] then (Some VideoAlreadyQueued, r, b)
                 else (let r1 = r\<lparr>queue := queue r @ videos\<rparr>;
                           b1 = publishRoomEvent r1 b request
                                  (Some \<lparr>video_ctx = None, videos_ctx = Some videos,
                                         prevPosition = None, queueIdx = None\<rparr>)
                       in (None, markDirty r1 ''queue'', b1)))))"

text \<open>
  With a URL the handler writes the resolved \<^verbatim>\<open>{service, id}\<close> into the request itself,
  so the published event carries it.
\<close>

definition addToQueue ::
  "Env \<Rightarrow> Room \<times> Effects \<Rightarrow> ClientId \<Rightarrow> string option \<Rightarrow> Video option \<Rightarrow> Video list option \<Rightarrow> result" where
  "addToQueue env s c url video videos =
     (case s of (r, b) \<Rightarrow>
        if truthy_str url
        then (case getServiceAdapterForURL env (the url) of
                None \<Rightarrow> (Some ExtractorFailed, r, b)
              | Some (sv, i) \<Rightarrow>
                  (let v = \<lparr>service = sv, id_v = i, length_v = None, meta = []\<rparr>
                   in addSingle env s (AddRequest c url (Some v) videos) v))
        else (case video of
                Some v \<Rightarrow> addSingle env s (AddRequest c url video videos) v
              | None \<Rightarrow>
                  (case videos of
                     Some vs \<Rightarrow> addMany env s (AddRequest c url video videos) vs
                   | None \<Rightarrow> (None, r, b))))"

definition removeFromQueue :: "Room \<times> Effects \<Rightarrow> RoomRequest \<Rightarrow> Video option \<Rightarrow> result" where
  "removeFromQueue s request video =
     (case s of (r, b) \<Rightarrow>
        (case video of
           None \<Rightarrow> (if queue r = [] then (Some VideoNotFound, r, b) else (Some TypeError, r, b))
         | Some v \<Rightarrow>
             (let matchIdx = findIndex (queue r) (\<lambda>item. sameVideo item v)
              in if matchIdx < 0 then (Some VideoNotFound, r, b)
                 else (let removed = queue r ! nat matchIdx;
                           r1 = r\<lparr>queue := take (nat matchIdx) (queue r) @ drop (nat matchIdx + 1) (queue r)\<rparr>;
                           r2 = markDirty r1 ''queue''
                       in (None, r2,
                           publishRoomEvent r2 b request
                             (Some \<lparr>video_ctx = Some removed, videos_ctx = None,
                                    prevPosition = None, queueIdx = Some matchIdx\<rparr>))))))"

text \<open>
  With \<^verbatim>\<open>fromIdx\<close> past the end nothing is removed and the source inserts \<^verbatim>\<open>undefined\<close>
  into the queue: the model stops there with \<open>UndefinedValue\<close>.
\<close>

definition reorderQueue :: "Room \<times> Effects \<Rightarrow> int \<Rightarrow> int \<Rightarrow> result" where
  "reorderQueue s fromIdx toIdx =
     (case s of (r, b) \<Rightarrow>
        (let q = queue r; i = spliceStart (length q) fromIdx
         in if i < length q
            then (let video = q ! i;
                      q1 = take i q @ drop (i + 1) q;
                      j = spliceStart (length q1) toIdx
                  in (None, markDirty (r\<lparr>queue := take j q1 @ [video] @ drop j q1\<rparr>) ''queue'', b))
            else (Some UndefinedValue, r, b)))"

definition joinRoom :: "Env \<Rightarrow> Room \<times> Effects \<Rightarrow> RoomRequest \<Rightarrow> ClientInfo \<Rightarrow> result" where
  "joinRoom env s request info =
     (case s of (r, b) \<Rightarrow>
        (let u = updateInfo env (new_RoomUser (id_ci info)) info;
             r1 = markDirty (r\<lparr>realusers := realusers r @ [u]\<rparr>) ''users''
         in (None, r1, publishRoomEvent r1 b request None)))"

fun removeFirst :: "('a \<Rightarrow> bool) \<Rightarrow> 'a list \<Rightarrow> 'a list" where
  "removeFirst p [] = []"
| "removeFirst p (x # xs) = (if p x then xs else x # removeFirst p xs)"

definition leaveRoom :: "Room \<times> Effects \<Rightarrow> RoomRequest \<Rightarrow> result" where
  "leaveRoom s request =
     (case s of (r, b) \<Rightarrow>
        (let r1 = (if list_ex (\<lambda>u. id_ru u = client request) (realusers r)
                   then markDirty (r\<lparr>realusers := removeFirst (\<lambda>u. id_ru u = client request) (realusers r)\<rparr>) ''users''
                   else r)
         in (None, r1, publishRoomEvent r1 b request None)))"

text \<open>
  \<^verbatim>\<open>updateInfo\<close> is not awaited in \<^verbatim>\<open>updateUser\<close>; the model takes its effect as
  immediate.
\<close>

definition updateUser :: "Env \<Rightarrow> Room \<times> Effects \<Rightarrow> ClientInfo \<Rightarrow> result" where
  "updateUser env s info =
     (case s of (r, b) \<Rightarrow>
        (let r1 = r\<lparr>realusers := map (\<lambda>u. if id_ru u = id_ci info then updateInfo env u info else u) (realusers r)\<rparr>
         in (None, (if list_ex (\<lambda>u. id_ru u = id_ci info) (realusers r) then markDirty r1 ''users'' else r1), b)))"

definition chat :: "Room \<times> Effects \<Rightarrow> RoomRequest \<Rightarrow> string \<Rightarrow> result" where
  "chat s request txt =
     (case s of (r, b) \<Rightarrow> (None, r, publish r b (Chat (getUserInfo r (client request)) txt)))"

definition vote :: "Room \<times> Effects \<Rightarrow> ClientId \<Rightarrow> Video \<Rightarrow> bool \<Rightarrow> result" where
  "vote s c video add =
     (case s of (r, b) \<Rightarrow>
        (let key = service video @ id_v video;
             r1 = (case map_of (votes r) key of
                     Some vs \<Rightarrow>
                       (if add then r\<lparr>votes := map_set key (set_add c vs) (votes r)\<rparr>
                        else r\<lparr>votes := map_set key (set_delete c vs) (votes r)\<rparr>)
                   | None \<Rightarrow>
                       (if add then r\<lparr>votes := map_set key (new_Set (string_iter c)) (votes r)\<rparr>
                        else r))
         in (None, markDirty r1 ''voteCounts'', b)))"

text \<open>
  A call of \<^verbatim>\<open>grants.check\<close>: its outcome, and the call recorded in the effects.
\<close>

definition check :: "Env \<Rightarrow> Room \<Rightarrow> Effects \<Rightarrow> Role \<Rightarrow> string option \<Rightarrow> bool \<times> Effects" where
  "check env r b role perm =
     (granted env (grants r) role perm, b\<lparr>checked := checked b @ [(role, perm)]\<rparr>)"

definition promotePerm :: "Role \<Rightarrow> string option" where
  "promotePerm role =
     (case role of
        Administrator \<Rightarrow> Some ''manage-users.promote-admin''
      | Moderator \<Rightarrow> Some ''manage-users.promote-moderator''
      | TrustedUser \<Rightarrow> Some ''manage-users.promote-trusted-user''
      | _ \<Rightarrow> None)"

definition demotePerm :: "Role \<Rightarrow> string option" where
  "demotePerm role =
     (case role of
        Administrator \<Rightarrow> Some ''manage-users.demote-admin''
      | Moderator \<Rightarrow> Some ''manage-users.demote-moderator''
      | TrustedUser \<Rightarrow> Some ''manage-users.demote-trusted-user''
      | _ \<Rightarrow> None)"

text \<open>The second check of a promotion, made when the target outranks the requested role.\<close>

definition demoteCheck :: "Env \<Rightarrow> Room \<Rightarrow> Effects \<Rightarrow> Role \<Rightarrow> Role \<Rightarrow> error option \<times> Effects" where
  "demoteCheck env r b role targetCurrentRole =
     (if rank role < rank targetCurrentRole
      then (case demotePerm targetCurrentRole of
              None \<Rightarrow> (Some ImpossiblePromotion, b)
            | Some p \<Rightarrow>
                (case check env r b role (Some p) of
                   (ok, b1) \<Rightarrow> (if ok then (None, b1) else (Some PermissionDenied, b1))))
      else (None, b))"

text \<open>
  The assignment \<^verbatim>\<open>this.userRoles[i] = Array.from(set)\<close> sets a property of the Map
  object and leaves its entries alone, so it has no counterpart here.
\<close>

definition setRole :: "Room \<Rightarrow> nat \<Rightarrow> Role \<Rightarrow> error option \<times> Room" where
  "setRole r uid role =
     (let r1 = r\<lparr>userRoles := (\<lambda>i. if i = Administrator \<or> i = Moderator \<or> i = TrustedUser
                                     then set_delete uid (userRoles r i) else userRoles r i)\<rparr>
      in if rank role \<ge> rank TrustedUser
         then (case userRoles_get r1 role of
                 None \<Rightarrow> (Some TypeError, r1)
               | Some members \<Rightarrow>
                   (None, markDirty (r1\<lparr>userRoles := (userRoles r1)(role := set_add uid members)\<rparr>) ''users''))
         else (None, markDirty r1 ''users''))"

definition promoteUser :: "Env \<Rightarrow> Room \<times> Effects \<Rightarrow> ClientId \<Rightarrow> ClientId \<Rightarrow> Role \<Rightarrow> result" where
  "promoteUser env s c targetClientId role =
     (case s of (r, b) \<Rightarrow>
        (case getUser r c of
           None \<Rightarrow> (Some TypeError, r, b)
         | Some u \<Rightarrow>
             (case check env r b (getRole r u) (promotePerm role) of
                (ok, b1) \<Rightarrow>
                  if \<not> ok then (Some PermissionDenied, r, b1)
                  else (case getUser r targetClientId of
                          None \<Rightarrow> (Some TypeError, r, b1)
                        | Some targetUser \<Rightarrow>
                            (let targetCurrentRole = getRole r targetUser
                             in (case demoteCheck env r b1 role targetCurrentRole of
                                   (Some e, b2) \<Rightarrow> (Some e, r, b2)
                                 | (None, b2) \<Rightarrow>
                                     if targetCurrentRole = UnregisteredUser
                                     then (Some ImpossiblePromotion, r, b2)
                                     else (case user_id targetUser of
                                             None \<Rightarrow> (Some UndefinedValue, r, b2)
                                           | Some uid \<Rightarrow>
                                               (case setRole r uid role of
                                                  (e, r1) \<Rightarrow> (e, r1, b2)))))))))"

subsection \<open>Request dispatch and undo\<close>

definition permissions :: "RoomRequestType \<Rightarrow> string option" where
  "permissions t =
     map_of
       [(T_PlaybackRequest, ''playback.play-pause''),
        (T_SkipRequest, ''playback.skip''),
        (T_SeekRequest, ''playback.seek''),
        (T_AddRequest, ''manage-queue.add''),
        (T_RemoveRequest, ''manage-queue.remove''),
        (T_OrderRequest, ''manage-queue.order''),
        (T_VoteRequest, ''manage-queue.vote''),
        (T_ChatRequest, ''chat'')] t"

text \<open>
  The first part of \<^verbatim>\<open>processRequest\<close>: the generic permission check. Reading the role
  of a client that is not in the room throws a \<open>TypeError\<close> before \<^verbatim>\<open>grants.check\<close>
  is called.
\<close>

definition checkPermission :: "Env \<Rightarrow> Room \<times> Effects \<Rightarrow> RoomRequest \<Rightarrow> error option \<times> Effects" where
  "checkPermission env s request =
     (case s of (r, b) \<Rightarrow>
        (case permissions (type_of request) of
           None \<Rightarrow> (None, b)
         | Some permission \<Rightarrow>
             (case getUser r (client request) of
                None \<Rightarrow> (Some TypeError, b)
              | Some u \<Rightarrow>
                  (case check env r b (getRole r u) (Some permission) of
                     (ok, b1) \<Rightarrow> (if ok then (None, b1) else (Some PermissionDenied, b1))))))"

text \<open>
  The number of leading elements that \<^verbatim>\<open>splice(0, queueIdx)\<close> removes from a list of
  length \<open>n\<close>; an absent count is 0.
\<close>

definition deleteCount :: "nat \<Rightarrow> int option \<Rightarrow> nat" where
  "deleteCount n idx = (case idx of None \<Rightarrow> 0 | Some i \<Rightarrow> nat (min (max i 0) (int n)))"

function (sequential)
  processRequest :: "Env \<Rightarrow> Room \<times> Effects \<Rightarrow> RoomRequest \<Rightarrow> result" and
  undo :: "Env \<Rightarrow> Room \<times> Effects \<Rightarrow> ClientId \<Rightarrow> RoomRequest \<Rightarrow> RoomEventContext option \<Rightarrow> result"
where
  "processRequest env s request =
     (case checkPermission env s request of
        (Some e, b1) \<Rightarrow> (Some e, fst s, b1)
      | (None, b1) \<Rightarrow>
          (case request of
             JoinRequest c info \<Rightarrow> joinRoom env (fst s, b1) request info
           | LeaveRequest c \<Rightarrow> leaveRoom (fst s, b1) request
           | PlaybackRequest c state \<Rightarrow> playback env (fst s, b1) request state
           | SkipRequest c \<Rightarrow> skip env (fst s, b1) request
           | SeekRequest c val \<Rightarrow> seek (fst s, b1) request val
           | AddRequest c url video videos \<Rightarrow> addToQueue env (fst s, b1) c url video videos
           | RemoveRequest c video \<Rightarrow> removeFromQueue (fst s, b1) request video
           | OrderRequest c fromIdx toIdx \<Rightarrow> reorderQueue (fst s, b1) fromIdx toIdx
           | VoteRequest c video add \<Rightarrow> vote (fst s, b1) c video add
           | PromoteRequest c targetClientId role \<Rightarrow> promoteUser env (fst s, b1) c targetClientId role
           | UpdateUser c info \<Rightarrow> updateUser env (fst s, b1) info
           | ChatRequest c txt \<Rightarrow> chat (fst s, b1) request txt
           | UndoRequest c ev additional \<Rightarrow> undo env (fst s, b1) c ev additional))"
| "undo env s c (SeekRequest c0 val0) additional =
     (case additional of
        None \<Rightarrow> (Some TypeError, s)
      | Some a \<Rightarrow> processRequest env s (SeekRequest c (prevPosition a)))"
| "undo env s c (SkipRequest c0) additional =
     (case s of (r, b) \<Rightarrow>
        (let r1 = (case currentSource r of
                     Some cur \<Rightarrow> markDirty (r\<lparr>queue := cur # queue r\<rparr>) ''queue''
                   | None \<Rightarrow> r)
         in (case additional of
               None \<Rightarrow> (Some TypeError, r1, b)
             | Some a \<Rightarrow>
                 (let r2 = set_currentSource r1 (video_ctx a)
                  in (case prevPosition a of
                        None \<Rightarrow> (Some UndefinedValue, r2, b)
                      | Some p \<Rightarrow> (None, set_playbackPosition r2 p, b))))))"
| "undo env s c (AddRequest c0 url0 video0 videos0) additional =
     (case s of (r, b) \<Rightarrow>
        if queue r \<noteq> []
        then processRequest env s (RemoveRequest c video0)
        else (None, set_currentSource r None, b))"
| "undo env s c (RemoveRequest c0 video0) additional =
     (case s of (r, b) \<Rightarrow>
        (case additional of
           None \<Rightarrow> (Some TypeError, r, b)
         | Some a \<Rightarrow>
             (case video0 of
                None \<Rightarrow> (Some UndefinedValue, r, b)
              | Some v \<Rightarrow>
                  (let k = deleteCount (length (queue r)) (queueIdx a);
                       newQueue = take k (queue r) @ [v] @ drop k (queue r)
                   in (None, markDirty (r\<lparr>queue := newQueue\<rparr>) ''queue'', b)))))"
| "undo env s c ev additional = (None, s)"
  by pat_completeness auto
termination
  by (relation "measure (\<lambda>x. case x of
          Inl (env, s, request) \<Rightarrow> (case request of UndoRequest c ev a \<Rightarrow> 2 | _ \<Rightarrow> 0)
        | Inr (env, s, c, ev, a) \<Rightarrow> 1)") auto

declare processRequest.simps [simp del]

text \<open>The table of handlers of \<^verbatim>\<open>processRequest\<close>, on its own.\<close>

definition handlers :: "Env \<Rightarrow> Room \<times> Effects \<Rightarrow> RoomRequest \<Rightarrow> result" where
  "handlers env s request =
     (case request of
        JoinRequest c info \<Rightarrow> joinRoom env s request info
      | LeaveRequest c \<Rightarrow> leaveRoom s request
      | PlaybackRequest c state \<Rightarrow> playback env s request state
      | SkipRequest c \<Rightarrow> skip env s request
      | SeekRequest c val \<Rightarrow> seek s request val
      | AddRequest c url video videos \<Rightarrow> addToQueue env s c url video videos
      | RemoveRequest c video \<Rightarrow> removeFromQueue s request video
      | OrderRequest c fromIdx toIdx \<Rightarrow> reorderQueue s fromIdx toIdx
      | VoteRequest c video add \<Rightarrow> vote s c video add
      | PromoteRequest c targetClientId role \<Rightarrow> promoteUser env s c targetClientId role
      | UpdateUser c info \<Rightarrow> updateUser env s info
      | ChatRequest c txt \<Rightarrow> chat s request txt
      | UndoRequest c ev additional \<Rightarrow> undo env s c ev additional)"

text \<open>
  The permission map in the words of the specification, to be compared with
  \<open>permissions\<close>, which is the map of the source.
\<close>

fun spec_permission :: "RoomRequestType \<Rightarrow> string option" where
  "spec_permission T_PlaybackRequest = Some ''playback.play-pause''"
| "spec_permission T_SkipRequest = Some ''playback.skip''"
| "spec_permission T_SeekRequest = Some ''playback.seek''"
| "spec_permission T_AddRequest = Some ''manage-queue.add''"
| "spec_permission T_RemoveRequest = Some ''manage-queue.remove''"
| "spec_permission T_OrderRequest = Some ''manage-queue.order''"
| "spec_permission T_VoteRequest = Some ''manage-queue.vote''"
| "spec_permission T_ChatRequest = Some ''chat''"
| "spec_permission T_JoinRequest = None"
| "spec_permission T_LeaveRequest = None"
| "spec_permission T_UpdateUser = None"
| "spec_permission T_PromoteRequest = None"
| "spec_permission T_UndoRequest = None"

text \<open>The (service, id) pairs of the current source and of the queue, in order.\<close>

definition queuedKeys :: "Room \<Rightarrow> (string \<times> string) list" where
  "queuedKeys r =
     map (\<lambda>v. (service v, id_v v))
       ((case currentSource r of None \<Rightarrow> [] | Some v \<Rightarrow> [v]) @ queue r)"

text \<open>The context that \<open>skip\<close> publishes with its event.\<close>

definition skipContext :: "Env \<Rightarrow> Room \<Rightarrow> RoomEventContext" where
  "skipContext env r =
     \<lparr>video_ctx = currentSource r, videos_ctx = None,
      prevPosition = Some (realPlaybackPosition env r), queueIdx = None\<rparr>"

text \<open>
  A skip by client \<open>c\<close> at the clock of \<open>env\<close>, followed by the undo of that skip,
  requested by client \<open>c'\<close> at the clock of \<open>env'\<close> with the event of the skip.
\<close>

definition skipThenUndo :: "Env \<Rightarrow> Env \<Rightarrow> Room \<times> Effects \<Rightarrow> ClientId \<Rightarrow> ClientId \<Rightarrow> result" where
  "skipThenUndo env env' s c c' =
     processRequest env' (snd (skip env s (SkipRequest c)))
       (UndoRequest c' (SkipRequest c) (Some (skipContext env (fst s))))"

subsection \<open>Runs of a room\<close>

text \<open>
  What happens to a room: a request is processed, the periodic update runs, or the
  debounced sync fires. A request that throws leaves the room as it is at the throw.
\<close>

datatype Step = Request RoomRequest | Tick | SyncNow

fun step :: "Env \<Rightarrow> Room \<times> Effects \<Rightarrow> Step \<Rightarrow> Room \<times> Effects" where
  "step env s (Request request) = snd (processRequest env s request)"
| "step env s Tick = (update env (fst s), snd s)"
| "step env s SyncNow = sync s"

definition run :: "Env \<Rightarrow> Room \<times> Effects \<Rightarrow> Step list \<Rightarrow> Room \<times> Effects" where
  "run env s steps = foldl (step env) s steps"

text \<open>
  The room that the constructor builds from the options \<^verbatim>\<open>{name}\<close>: the setter of the
  name has marked it dirty. The grants and the time of construction are parameters.
\<close>

definition new_Room :: "string \<Rightarrow> Grants \<Rightarrow> int \<Rightarrow> Room" where
  "new_Room nm g t =
     \<lparr>name = nm, title = [], description = [], visibility = Public, queueMode = Manual,
      isTemporary = False, currentSource = None, queue = [], isPlaying = False,
      playbackPosition = 0, grants = g, realusers = [], userRoles = (\<lambda>i. []), owner = None,
      dirty = [''name''], playbackStart = None, keepAlivePing = t, votes = []\<rparr>"

subsection \<open>Concrete rooms, clients and runs\<close>

definition videoA :: Video where
  "videoA = \<lparr>service = ''youtube'', id_v = ''A'', length_v = Some 100, meta = ''fetched''\<rparr>"

definition videoB :: Video where
  "videoB = \<lparr>service = ''youtube'', id_v = ''B'', length_v = Some 100, meta = ''fetched''\<rparr>"

text \<open>
  An environment at time 1000 ms in which every permission is bit 0, no user is
  registered, and every video is found with a length of 100 s.
\<close>

definition env0 :: Env where
  "env0 = \<lparr>now = 1000, permBit = (\<lambda>p. Some 0), getUser_um = (\<lambda>i. None),
            getServiceAdapterForURL = (\<lambda>u. None),
            getVideoInfo = (\<lambda>s i. Some \<lparr>service = s, id_v = i, length_v = Some 100, meta = ''fetched''\<rparr>),
            getManyVideoInfo = (\<lambda>vs. Some vs)\<rparr>"

text \<open>The same environment with an extractor that resolves every URL to video A.\<close>

definition env_url :: Env where
  "env_url = env0\<lparr>getServiceAdapterForURL := (\<lambda>u. Some (''youtube'', ''A''))\<rparr>"

definition allow :: Grants where
  "allow = (\<lambda>role. 1)"

definition deny :: Grants where
  "deny = (\<lambda>role. 0)"

definition effects0 :: Effects where
  "effects0 = \<lparr>kv = (\<lambda>k. None), published = [], checked = []\<rparr>"

definition info1 :: ClientInfo where
  "info1 = \<lparr>id_ci = ''1'', user_id_ci = None, username_ci = Some ''ann'', status_ci = None\<rparr>"

definition info12 :: ClientInfo where
  "info12 = \<lparr>id_ci = ''12'', user_id_ci = None, username_ci = Some ''bea'', status_ci = None\<rparr>"

definition infoReg :: ClientInfo where
  "infoReg = \<lparr>id_ci = ''1'', user_id_ci = Some 5, username_ci = None, status_ci = None\<rparr>"

definition user1 :: RoomUser where
  "user1 = \<lparr>id_ru = ''1'', user_id = None, unregisteredUsername = ''ann'', user = None,
            playerStatus = status_none\<rparr>"

definition roomJoined :: "Grants \<Rightarrow> Room" where
  "roomJoined g = (new_Room ''test'' g 0)\<lparr>realusers := [user1]\<rparr>"

definition roomCurrent :: Room where
  "roomCurrent = (roomJoined deny)\<lparr>currentSource := Some videoA\<rparr>"

definition roomQueued :: Room where
  "roomQueued = (roomJoined deny)\<lparr>queue := [videoA]\<rparr>"

definition roomPlaying :: Room where
  "roomPlaying =
     (roomJoined allow)\<lparr>currentSource := Some videoA, queue := [videoB], isPlaying := True,
                         playbackPosition := 30, playbackStart := Some 0\<rparr>"

definition seekContext :: RoomEventContext where
  "seekContext = \<lparr>video_ctx = None, videos_ctx = None, prevPosition = Some 30, queueIdx = None\<rparr>"

text \<open>
  A client joins, adds video A, removes it, adds it again, and then undoes the removal
  with the event the server published for it.
\<close>

definition trace_undo_remove :: "Step list" where
  "trace_undo_remove =
     [Request (JoinRequest ''1'' info1),
      Request (AddRequest ''1'' None (Some videoA) None),
      Request (RemoveRequest ''1'' (Some videoA)),
      Request (AddRequest ''1'' None (Some videoA) None),
      Request (UndoRequest ''1'' (RemoveRequest ''1'' (Some videoA))
                 (Some \<lparr>video_ctx = Some videoA, videos_ctx = None, prevPosition = None,
                        queueIdx = Some 0\<rparr>))]"

text \<open>
  A client joins and adds video A, the update makes it the current source, the client
  starts the playback and then skips the only video.
\<close>

definition trace_skip_last :: "Step list" where
  "trace_skip_last =
     [Request (JoinRequest ''1'' info1),
      Request (AddRequest ''1'' None (Some videoA) None),
      Tick,
      Request (PlaybackRequest ''1'' True),
      Request (SkipRequest ''1'')]"

text \<open>The client with id \<^verbatim>\<open>"12"\<close> joins and casts the first vote for video A.\<close>

definition trace_first_vote :: "Step list" where
  "trace_first_vote =
     [Request (JoinRequest ''12'' info12),
      Request (VoteRequest ''12'' videoA True)]"

section \<open>Properties\<close>

subsection \<open>Auxiliary facts\<close>

lemma findIndexFrom_nonneg: "0 \<le> i \<Longrightarrow> (0 \<le> findIndexFrom i p xs) = list_ex p xs"
  by (induction xs arbitrary: i) auto

lemma findIndex_nonneg: "(0 \<le> findIndex xs p) = list_ex p xs"
  by (simp add: findIndex_def findIndexFrom_nonneg)

lemma permissions_spec: "permissions t = spec_permission t"
  by (cases t) (simp_all add: permissions_def)

lemma checkPermission_none:
  "spec_permission (type_of request) = None \<Longrightarrow> checkPermission env (r, b) request = (None, b)"
  by (simp add: checkPermission_def permissions_spec)

lemma checkPermission_participant:
  "spec_permission (type_of request) = Some p \<Longrightarrow> getUser r (client request) = Some u \<Longrightarrow>
   checkPermission env (r, b) request =
     (if granted env (grants r) (getRole r u) (Some p) then None else Some PermissionDenied,
      b\<lparr>checked := checked b @ [(getRole r u, Some p)]\<rparr>)"
  by (simp add: checkPermission_def permissions_spec check_def)

lemma processRequest_handlers:
  "processRequest env (r, b) request =
     (case checkPermission env (r, b) request of
        (Some e, b1) \<Rightarrow> (Some e, r, b1)
      | (None, b1) \<Rightarrow> handlers env (r, b1) request)"
  by (simp add: processRequest.simps handlers_def split: prod.splits option.splits RoomRequest.splits)

lemma users_frame [simp]:
  "users (r\<lparr>queue := q\<rparr>) = users r"
  "users (r\<lparr>dirty := d\<rparr>) = users r"
  "users (r\<lparr>currentSource := cs\<rparr>) = users r"
  "users (r\<lparr>playbackPosition := pp\<rparr>) = users r"
  "users (r\<lparr>isPlaying := ip\<rparr>) = users r"
  by (simp_all add: users_def getRole_def isOwner_def cong: option.case_cong)

lemma getUserInfo_frame [simp]:
  "getUserInfo (r\<lparr>queue := q\<rparr>) c = getUserInfo r c"
  "getUserInfo (r\<lparr>dirty := d\<rparr>) c = getUserInfo r c"
  "getUserInfo (r\<lparr>currentSource := cs\<rparr>) c = getUserInfo r c"
  "getUserInfo (r\<lparr>playbackPosition := pp\<rparr>) c = getUserInfo r c"
  "getUserInfo (r\<lparr>isPlaying := ip\<rparr>) c = getUserInfo r c"
  by (simp_all add: getUserInfo_def)

lemma getUserInfo_None: "getUser r c = None \<Longrightarrow> getUserInfo r c = None"
  by (simp add: getUser_def getUserInfo_def users_def find_None_iff)

lemma getUser_None_list_ex: "getUser r c = None \<Longrightarrow> \<not> list_ex (\<lambda>u. id_ru u = c) (realusers r)"
  by (simp add: getUser_def find_None_iff list_ex_iff)

lemma getRole_user1: "getRole r user1 = UnregisteredUser"
  by (simp add: getRole_def isOwner_def user1_def isLoggedIn_def truthy_num_def)

subsection \<open>Claims\<close>

text \<open>
  Claim C1: in every reachable room state no (service, id) pair appears more than once
  across the queue together with the current source. The single-video branch of
  \<open>addToQueue\<close> rejects a video that is already there, but the undo of a removal puts
  the removed video back without looking: after the run \<open>trace_undo_remove\<close>, whose
  requests are all ones the server accepts, video A is in the queue twice.
\<close>

theorem queue_duplicate_after_undo:
  "queuedKeys (fst (run env0 (new_Room ''test'' allow 0, effects0) (butlast trace_undo_remove)))
     = [(''youtube'', ''A'')]
   \<and> queuedKeys (fst (run env0 (new_Room ''test'' allow 0, effects0) trace_undo_remove))
     = [(''youtube'', ''A''), (''youtube'', ''A'')]"
  by code_simp

text \<open>
  Claim C2: \<open>isPlaying\<close> is true if and only if \<open>playbackStart\<close> is set. \<open>pause\<close>
  clears \<open>playbackStart\<close> when it stops the playback, but \<open>dequeueNext\<close>, at the end
  of the queue, only sets \<open>isPlaying\<close> to false: after the run \<open>trace_skip_last\<close> the
  room is not playing and \<open>playbackStart\<close> is still the time of the play request.
\<close>

theorem stopped_room_keeps_playbackStart:
  "isPlaying (fst (run env0 (new_Room ''test'' allow 0, effects0) (butlast trace_skip_last))) = True
   \<and> playbackStart (fst (run env0 (new_Room ''test'' allow 0, effects0) (butlast trace_skip_last))) = Some 1000
   \<and> isPlaying (fst (run env0 (new_Room ''test'' allow 0, effects0) trace_skip_last)) = False
   \<and> playbackStart (fst (run env0 (new_Room ''test'' allow 0, effects0) trace_skip_last)) = Some 1000"
  by code_simp

text \<open>
  Claim C3: with a dirty field, \<open>sync\<close> writes the full snapshot to the key
  \<^verbatim>\<open>room-sync:{name}\<close>, publishes the delta and clears the dirty set. The source
  writes the snapshot to the key \<^verbatim>\<open>room:{name}\<close>, while the client gateway reads
  \<^verbatim>\<open>room-sync:{name}\<close>: for the new room named test, whose name is dirty, the key
  \<^verbatim>\<open>room-sync:test\<close> stays empty and the snapshot is under \<^verbatim>\<open>room:test\<close>. The
  delta holds the dirty field and the grants as the mask of the owner, and the dirty set
  is empty afterwards.
\<close>

theorem sync_writes_room_key:
  "dirty (new_Room ''test'' allow 0) = [''name'']
   \<and> kv (snd (sync (new_Room ''test'' allow 0, effects0))) ''room-sync:test'' = None
   \<and> kv (snd (sync (new_Room ''test'' allow 0, effects0))) ''room:test''
       = Some (syncableState (new_Room ''test'' allow 0))
   \<and> published (snd (sync (new_Room ''test'' allow 0, effects0)))
       = [(''room:test'', Sync [(''name'', VString ''test''), (''grants'', VMask 1)])]
   \<and> dirty (fst (sync (new_Room ''test'' allow 0, effects0))) = []"
  by (simp add: sync_def new_Room_def effects0_def publish_def Let_def pick_def
      syncableState_def List.map_filter_simps getMask_def allow_def)

text \<open>
  Claim C4: a single-video AddRequest, given as a video or as a URL that the extractor
  resolves, whose (service, id) is that of the current source or of a queue entry fails
  with VideoAlreadyQueued and leaves the room and the bus as they are; otherwise, the
  metadata being fetched, the fetched video is appended to the end of the queue, the
  queue is marked dirty, nothing else of the room changes, and one event is published.
\<close>

theorem addToQueue_single:
  assumes "(\<not> truthy_str url \<and> video = Some v)
         \<or> (truthy_str url \<and> getServiceAdapterForURL env (the url) = Some (sv, i)
             \<and> v = \<lparr>service = sv, id_v = i, length_v = None, meta = []\<rparr>)"
  shows "(matchesCurrent r v \<or> list_ex (\<lambda>item. sameVideo item v) (queue r) \<longrightarrow>
            addToQueue env (r, b) c url video videos = (Some VideoAlreadyQueued, r, b))
       \<and> (\<not> matchesCurrent r v \<and> \<not> list_ex (\<lambda>item. sameVideo item v) (queue r) \<and>
            getVideoInfo env (service v) (id_v v) = Some fetched \<longrightarrow>
            addToQueue env (r, b) c url video videos =
              (None,
               r\<lparr>queue := queue r @ [fetched], dirty := set_add ''queue'' (dirty r)\<rparr>,
               b\<lparr>published := published b @
                    [(''room:'' @ name r,
                      Event (AddRequest c url (Some v) videos) (getUserInfo r c)
                        (Some \<lparr>video_ctx = Some fetched, videos_ctx = None, prevPosition = None,
                               queueIdx = None\<rparr>))]\<rparr>))"
  using assms
  by (auto simp add: addToQueue_def addSingle_def findIndex_nonneg markDirty_def Let_def
      publishRoomEvent_def publish_def)


theorem addToQueue_single_witness:
  "\<not> truthy_str None
   \<and> matchesCurrent roomCurrent videoA
   \<and> addToQueue env0 (roomCurrent, effects0) ''1'' None (Some videoA) None
       = (Some VideoAlreadyQueued, roomCurrent, effects0)
   \<and> truthy_str (Some ''https://youtu.be/A'')
   \<and> getServiceAdapterForURL env_url (the (Some ''https://youtu.be/A'')) = Some (''youtube'', ''A'')
   \<and> list_ex (\<lambda>item. sameVideo item \<lparr>service = ''youtube'', id_v = ''A'', length_v = None, meta = []\<rparr>)
        (queue roomQueued)
   \<and> addToQueue env_url (roomQueued, effects0) ''1'' (Some ''https://youtu.be/A'') None None
       = (Some VideoAlreadyQueued, roomQueued, effects0)
   \<and> \<not> matchesCurrent roomQueued videoB
   \<and> \<not> list_ex (\<lambda>item. sameVideo item videoB) (queue roomQueued)
   \<and> getVideoInfo env0 (service videoB) (id_v videoB) = Some videoB
   \<and> queue (fst (snd (addToQueue env0 (roomQueued, effects0) ''1'' None (Some videoB) None)))
       = [videoA, videoB]
   \<and> dirty (fst (snd (addToQueue env0 (roomQueued, effects0) ''1'' None (Some videoB) None)))
       = [''name'', ''queue'']"
proof -
  have t: "\<not> truthy_str None" by (simp add: truthy_str_def)
  have tu: "truthy_str (Some ''https://youtu.be/A'')" by (simp add: truthy_str_def)
  have ad: "getServiceAdapterForURL env_url (the (Some ''https://youtu.be/A'')) = Some (''youtube'', ''A'')"
    by (simp add: env_url_def)
  have m: "matchesCurrent roomCurrent videoA"
    by (simp add: matchesCurrent_def roomCurrent_def sameVideo_def)
  have l: "list_ex (\<lambda>item. sameVideo item \<lparr>service = ''youtube'', id_v = ''A'', length_v = None, meta = []\<rparr>)
        (queue roomQueued)"
    by (simp add: roomQueued_def sameVideo_def videoA_def)
  have n1: "\<not> matchesCurrent roomQueued videoB"
    by (simp add: matchesCurrent_def roomQueued_def roomJoined_def new_Room_def)
  have n2: "\<not> list_ex (\<lambda>item. sameVideo item videoB) (queue roomQueued)"
    by (simp add: roomQueued_def sameVideo_def videoA_def videoB_def)
  have f: "getVideoInfo env0 (service videoB) (id_v videoB) = Some videoB"
    by (simp add: env0_def videoB_def)
  have q: "queue roomQueued = [videoA]" by (simp add: roomQueued_def)
  have d: "dirty roomQueued = [''name'']" by (simp add: roomQueued_def roomJoined_def new_Room_def)
  have a: "addToQueue env0 (roomCurrent, effects0) ''1'' None (Some videoA) None
       = (Some VideoAlreadyQueued, roomCurrent, effects0)"
    using addToQueue_single [where url = None and video = "Some videoA" and v = videoA
        and r = roomCurrent and env = env0 and b = effects0 and c = "''1''" and videos = None] t m
    by blast
  have b: "addToQueue env_url (roomQueued, effects0) ''1'' (Some ''https://youtu.be/A'') None None
       = (Some VideoAlreadyQueued, roomQueued, effects0)"
    using addToQueue_single [where url = "Some ''https://youtu.be/A''" and video = None
        and v = "\<lparr>service = ''youtube'', id_v = ''A'', length_v = None, meta = []\<rparr>"
        and sv = "''youtube''" and i = "''A''"
        and r = roomQueued and env = env_url and b = effects0 and c = "''1''" and videos = None]
      tu ad l
    by blast
  have c: "addToQueue env0 (roomQueued, effects0) ''1'' None (Some videoB) None
       = (None, roomQueued\<lparr>queue := queue roomQueued @ [videoB], dirty := set_add ''queue'' (dirty roomQueued)\<rparr>,
          effects0\<lparr>published := published effects0 @
                    [(''room:'' @ name roomQueued,
                      Event (AddRequest ''1'' None (Some videoB) None) (getUserInfo roomQueued ''1'')
                        (Some \<lparr>video_ctx = Some videoB, videos_ctx = None, prevPosition = None,
                               queueIdx = None\<rparr>))]\<rparr>)"
    using addToQueue_single [where url = None and video = "Some videoB" and v = videoB
        and fetched = videoB and r = roomQueued and env = env0 and b = effects0 and c = "''1''"
        and videos = None] t n1 n2 f
    by blast
  show ?thesis
    using a b t tu ad m l n1 n2 f by (simp add: c q d set_add_def)
qed


text \<open>
  Claim C5, as amended: in a room with a current source, a skip followed by the undo of
  that skip (with the event the skip published) restores the current source and the
  queue, and sets \<open>playbackPosition\<close> to the effective position at the time of the skip
  (\<open>realPlaybackPosition\<close>); that is the \<open>playbackPosition\<close> of before the skip when
  the room was not playing.
\<close>

theorem skip_then_undo:
  assumes "currentSource r = Some v"
  shows "skip env (r, b) (SkipRequest c) =
           (None, dequeueNext r,
            b\<lparr>published := published b @
                 [(''room:'' @ name r, Event (SkipRequest c) (getUserInfo r c) (Some (skipContext env r)))]\<rparr>)
       \<and> fst (skipThenUndo env env' (r, b) c c') = None
       \<and> currentSource (fst (snd (skipThenUndo env env' (r, b) c c'))) = currentSource r
       \<and> queue (fst (snd (skipThenUndo env env' (r, b) c c'))) = queue r
       \<and> playbackPosition (fst (snd (skipThenUndo env env' (r, b) c c'))) = realPlaybackPosition env r
       \<and> (playbackStart r = None \<longrightarrow>
            playbackPosition (fst (snd (skipThenUndo env env' (r, b) c c'))) = playbackPosition r)"
proof -
  have nm: "name (dequeueNext r) = name r"
    by (simp add: dequeueNext_def set_currentSource_def set_playbackPosition_def set_isPlaying_def
        markDirty_def Let_def split: list.splits)
  have ui: "getUserInfo (dequeueNext r) c = getUserInfo r c"
    by (simp add: dequeueNext_def set_currentSource_def set_playbackPosition_def set_isPlaying_def
        markDirty_def Let_def split: list.splits)
  have sk: "skip env (r, b) (SkipRequest c) =
           (None, dequeueNext r,
            b\<lparr>published := published b @
                 [(''room:'' @ name r, Event (SkipRequest c) (getUserInfo r c) (Some (skipContext env r)))]\<rparr>)"
    by (simp add: skip_def skipContext_def publishRoomEvent_def publish_def nm ui Let_def)
  have un: "skipThenUndo env env' (r, b) c c' =
          undo env' (snd (skip env (r, b) (SkipRequest c))) c' (SkipRequest c) (Some (skipContext env r))"
    by (cases "snd (skip env (r, b) (SkipRequest c))")
       (simp add: skipThenUndo_def processRequest_handlers checkPermission_none handlers_def)
  show ?thesis
    using assms
    by (cases "queue r")
       (simp_all add: un sk skipContext_def dequeueNext_def set_currentSource_def
          set_playbackPosition_def set_isPlaying_def markDirty_def Let_def realPlaybackPosition_def
          publishRoomEvent_def publish_def)
qed

theorem skip_then_undo_witness:
  "currentSource roomPlaying = Some videoA
   \<and> fst (skipThenUndo env0 env0 (roomPlaying, effects0) ''1'' ''1'') = None
   \<and> currentSource (fst (snd (skipThenUndo env0 env0 (roomPlaying, effects0) ''1'' ''1''))) = Some videoA
   \<and> queue (fst (snd (skipThenUndo env0 env0 (roomPlaying, effects0) ''1'' ''1''))) = [videoB]
   \<and> playbackPosition (fst (snd (skipThenUndo env0 env0 (roomPlaying, effects0) ''1'' ''1''))) = 31"
proof -
  have h: "currentSource roomPlaying = Some videoA" by (simp add: roomPlaying_def)
  have q: "queue roomPlaying = [videoB]" by (simp add: roomPlaying_def)
  have p: "realPlaybackPosition env0 roomPlaying = 31"
    by (simp add: realPlaybackPosition_def roomPlaying_def env0_def)
  show ?thesis
    using skip_then_undo [OF h, where env = env0 and b = effects0 and c = "''1''"
        and env' = env0 and c' = "''1''"] h q p
    by simp
qed

text \<open>
  Claim C5 as stated fails in a playing room: the room plays video A since time 0 with
  \<open>playbackPosition\<close> 30, so that its effective position at time 1000 ms is 31; a skip
  at that time followed at once by its undo leaves the \<open>playbackPosition\<close> at 31 and
  the effective position at 32.
\<close>

theorem skip_then_undo_counterexample:
  "currentSource roomPlaying = Some videoA
   \<and> playbackPosition roomPlaying = 30
   \<and> realPlaybackPosition env0 roomPlaying = 31
   \<and> playbackPosition (fst (snd (skipThenUndo env0 env0 (roomPlaying, effects0) ''1'' ''1''))) = 31
   \<and> realPlaybackPosition env0 (fst (snd (skipThenUndo env0 env0 (roomPlaying, effects0) ''1'' ''1''))) = 32"
  by code_simp

text \<open>
  Claim C6, as amended: the permission map of \<open>processRequest\<close> is the one of the
  specification. A request whose type has no entry (JoinRequest, LeaveRequest, UpdateUser,
  PromoteRequest, UndoRequest) goes to its handler with no call of \<^verbatim>\<open>grants.check\<close>.
  For a request whose type has an entry and whose client is a participant of the room,
  \<^verbatim>\<open>grants.check\<close> is called once with the role of the participant and the permission of
  the map before the handler runs, and when it fails the request ends with
  PermissionDenied, the room unchanged and no handler run.
\<close>

theorem processRequest_permission_check:
  "permissions (type_of request) = spec_permission (type_of request)
   \<and> (spec_permission (type_of request) = None \<longrightarrow>
        processRequest env (r, b) request = handlers env (r, b) request)
   \<and> (spec_permission (type_of request) = Some p \<and> getUser r (client request) = Some u \<longrightarrow>
        processRequest env (r, b) request =
          (if granted env (grants r) (getRole r u) (Some p)
           then handlers env (r, b\<lparr>checked := checked b @ [(getRole r u, Some p)]\<rparr>) request
           else (Some PermissionDenied, r, b\<lparr>checked := checked b @ [(getRole r u, Some p)]\<rparr>)))"
  by (simp add: permissions_spec processRequest_handlers checkPermission_none
      checkPermission_participant)

theorem processRequest_permission_check_witness:
  "spec_permission (type_of (LeaveRequest ''9'')) = None
   \<and> processRequest env0 (roomJoined deny, effects0) (LeaveRequest ''9'')
       = handlers env0 (roomJoined deny, effects0) (LeaveRequest ''9'')
   \<and> spec_permission (type_of (SkipRequest ''1'')) = Some ''playback.skip''
   \<and> getUser (roomJoined deny) (client (SkipRequest ''1'')) = Some user1
   \<and> processRequest env0 (roomJoined deny, effects0) (SkipRequest ''1'')
       = (Some PermissionDenied, roomJoined deny,
          effects0\<lparr>checked := [(UnregisteredUser, Some ''playback.skip'')]\<rparr>)"
proof -
  have h1: "spec_permission (type_of (LeaveRequest ''9'')) = None" by simp
  have h2: "spec_permission (type_of (SkipRequest ''1'')) = Some ''playback.skip''" by simp
  have h3: "getUser (roomJoined deny) (client (SkipRequest ''1'')) = Some user1"
    by (simp add: getUser_def roomJoined_def new_Room_def user1_def)
  have g: "\<not> granted env0 (grants (roomJoined deny)) (getRole (roomJoined deny) user1) (Some ''playback.skip'')"
    by (simp add: granted_def env0_def roomJoined_def new_Room_def deny_def)
  have ch: "checked effects0 = []" by (simp add: effects0_def)
  show ?thesis
    using processRequest_permission_check [where request = "LeaveRequest ''9''" and env = env0
        and r = "roomJoined deny" and b = effects0]
      processRequest_permission_check [where request = "SkipRequest ''1''"
        and p = "''playback.skip''" and r = "roomJoined deny" and u = user1 and env = env0
        and b = effects0]
      h1 h2 h3 g getRole_user1 ch
    by simp
qed

text \<open>
  Claim C6 as stated fails for a client that is not in the room: a PlaybackRequest of
  the unknown client 9 ends with a TypeError raised while the role is read, and
  \<^verbatim>\<open>grants.check\<close> is not called.
\<close>

theorem processRequest_stranger_counterexample:
  "type_of (PlaybackRequest ''9'' True) = T_PlaybackRequest
   \<and> fst (processRequest env0 (roomJoined allow, effects0) (PlaybackRequest ''9'' True)) = Some TypeError
   \<and> checked (snd (snd (processRequest env0 (roomJoined allow, effects0) (PlaybackRequest ''9'' True)))) = []"
  by code_simp

text \<open>
  Claim C7: the first vote of a client for a video creates the entry of the video with
  that client as its one element. The source builds the entry with
  \<^verbatim>\<open>new Set(request.client)\<close>, which iterates the string: after the run
  \<open>trace_first_vote\<close> the voters of video A are the two strings 1 and 2, not the client
  12.
\<close>

theorem first_vote_splits_client_id:
  "map_of (votes (fst (run env0 (new_Room ''test'' allow 0, effects0) trace_first_vote))) ''youtubeA''
     = Some [''1'', ''2'']"
  by code_simp

text \<open>
  Claim C8, as amended: for a ClientInfo with a user id that is present and not zero,
  \<open>updateInfo\<close> records the user id, stores the user that the user collaborator returns
  for it, and leaves \<open>unregisteredUsername\<close> as it was.
\<close>

theorem updateInfo_userId:
  assumes "user_id_ci info = Some n" and "n \<noteq> 0"
  shows "user_id (updateInfo env u info) = Some n
       \<and> user (updateInfo env u info) = getUser_um env n
       \<and> unregisteredUsername (updateInfo env u info) = unregisteredUsername u"
  using assms by (simp add: updateInfo_def truthy_num_def Let_def split: option.splits)

theorem updateInfo_userId_witness:
  "user_id_ci infoReg = Some 5 \<and> (5::nat) \<noteq> 0
   \<and> user_id (updateInfo env0 user1 infoReg) = Some 5
   \<and> user (updateInfo env0 user1 infoReg) = None
   \<and> unregisteredUsername (updateInfo env0 user1 infoReg) = ''ann''"
proof -
  have h: "user_id_ci infoReg = Some 5" by (simp add: infoReg_def)
  show ?thesis
    using updateInfo_userId [OF h, where env = env0 and u = user1] h
    by (simp add: env0_def user1_def)
qed

text \<open>
  Claim C8 as stated fails: the participant named ann logs in with user id 5, and the
  stored unregistered name is still ann afterwards, not empty.
\<close>

theorem updateInfo_keeps_name_counterexample:
  "user_id_ci infoReg = Some 5
   \<and> unregisteredUsername (updateInfo env0 user1 infoReg) = ''ann''
   \<and> unregisteredUsername (updateInfo env0 user1 infoReg) \<noteq> []"
  by code_simp

text \<open>
  Claim C9, as amended: for a participant of the room, the undo of a SeekRequest is the
  processing of a new SeekRequest of the undoing client, and the undo of an AddRequest
  while the queue is not empty is the processing of a new RemoveRequest of the undoing
  client; each fails with PermissionDenied, the room unchanged, when the role of the
  client lacks \<^verbatim>\<open>playback.seek\<close> or \<^verbatim>\<open>manage-queue.remove\<close>. With an empty queue the undo
  of an AddRequest clears the current source with no permission check.
\<close>

theorem undo_reenters_processRequest:
  assumes "getUser r c = Some u"
  shows "processRequest env (r, b) (UndoRequest c (SeekRequest c0 val0) (Some a))
           = processRequest env (r, b) (SeekRequest c (prevPosition a))
       \<and> (\<not> granted env (grants r) (getRole r u) (Some ''playback.seek'') \<longrightarrow>
            processRequest env (r, b) (UndoRequest c (SeekRequest c0 val0) (Some a))
              = (Some PermissionDenied, r,
                 b\<lparr>checked := checked b @ [(getRole r u, Some ''playback.seek'')]\<rparr>))
       \<and> (queue r \<noteq> [] \<longrightarrow>
            processRequest env (r, b) (UndoRequest c (AddRequest c0 url0 video0 videos0) additional)
              = processRequest env (r, b) (RemoveRequest c video0))
       \<and> (queue r \<noteq> [] \<and> \<not> granted env (grants r) (getRole r u) (Some ''manage-queue.remove'') \<longrightarrow>
            processRequest env (r, b) (UndoRequest c (AddRequest c0 url0 video0 videos0) additional)
              = (Some PermissionDenied, r,
                 b\<lparr>checked := checked b @ [(getRole r u, Some ''manage-queue.remove'')]\<rparr>))
       \<and> (queue r = [] \<longrightarrow>
            processRequest env (r, b) (UndoRequest c (AddRequest c0 url0 video0 videos0) additional)
              = (None, set_currentSource r None, b))"
proof -
  have un: "\<And>ev ad. processRequest env (r, b) (UndoRequest c ev ad) = undo env (r, b) c ev ad"
    by (simp add: processRequest_handlers checkPermission_none handlers_def)
  have sk: "\<not> granted env (grants r) (getRole r u) (Some ''playback.seek'') \<Longrightarrow>
        processRequest env (r, b) (SeekRequest c (prevPosition a))
          = (Some PermissionDenied, r, b\<lparr>checked := checked b @ [(getRole r u, Some ''playback.seek'')]\<rparr>)"
    using assms
    by (simp add: processRequest_handlers
        checkPermission_participant [where u = u and p = "''playback.seek''"])
  have rm: "\<not> granted env (grants r) (getRole r u) (Some ''manage-queue.remove'') \<Longrightarrow>
        processRequest env (r, b) (RemoveRequest c video0)
          = (Some PermissionDenied, r, b\<lparr>checked := checked b @ [(getRole r u, Some ''manage-queue.remove'')]\<rparr>)"
    using assms
    by (simp add: processRequest_handlers
        checkPermission_participant [where u = u and p = "''manage-queue.remove''"])
  show ?thesis
    using sk rm by (simp add: un)
qed

theorem undo_reenters_processRequest_witness:
  "getUser roomQueued ''1'' = Some user1
   \<and> \<not> granted env0 (grants roomQueued) (getRole roomQueued user1) (Some ''playback.seek'')
   \<and> \<not> granted env0 (grants roomQueued) (getRole roomQueued user1) (Some ''manage-queue.remove'')
   \<and> queue roomQueued \<noteq> []
   \<and> processRequest env0 (roomQueued, effects0) (UndoRequest ''1'' (SeekRequest ''1'' (Some 50)) (Some seekContext))
       = (Some PermissionDenied, roomQueued,
          effects0\<lparr>checked := [(UnregisteredUser, Some ''playback.seek'')]\<rparr>)
   \<and> processRequest env0 (roomQueued, effects0)
         (UndoRequest ''1'' (AddRequest ''1'' None (Some videoA) None) None)
       = (Some PermissionDenied, roomQueued,
          effects0\<lparr>checked := [(UnregisteredUser, Some ''manage-queue.remove'')]\<rparr>)
   \<and> queue roomCurrent = []
   \<and> getUser roomCurrent ''1'' = Some user1
   \<and> processRequest env0 (roomCurrent, effects0)
         (UndoRequest ''1'' (AddRequest ''1'' None (Some videoA) None) None)
       = (None, set_currentSource roomCurrent None, effects0)"
proof -
  have h: "getUser roomQueued ''1'' = Some user1"
    by (simp add: getUser_def roomQueued_def roomJoined_def new_Room_def user1_def)
  have h': "getUser roomCurrent ''1'' = Some user1"
    by (simp add: getUser_def roomCurrent_def roomJoined_def new_Room_def user1_def)
  have g1: "\<not> granted env0 (grants roomQueued) (getRole roomQueued user1) (Some ''playback.seek'')"
    by (simp add: granted_def env0_def roomQueued_def roomJoined_def new_Room_def deny_def)
  have g2: "\<not> granted env0 (grants roomQueued) (getRole roomQueued user1) (Some ''manage-queue.remove'')"
    by (simp add: granted_def env0_def roomQueued_def roomJoined_def new_Room_def deny_def)
  have q: "queue roomQueued \<noteq> []" by (simp add: roomQueued_def)
  have q': "queue roomCurrent = []" by (simp add: roomCurrent_def roomJoined_def new_Room_def)
  have ch: "checked effects0 = []" by (simp add: effects0_def)
  note T = undo_reenters_processRequest [OF h, where env = env0 and b = effects0
      and ?c0.0 = "''1''" and ?val0.0 = "Some 50" and a = seekContext and ?url0.0 = None
      and ?video0.0 = "Some videoA" and ?videos0.0 = None and additional = None]
  note T' = undo_reenters_processRequest [OF h', where env = env0 and b = effects0
      and ?c0.0 = "''1''" and ?val0.0 = "Some 50" and a = seekContext and ?url0.0 = None
      and ?video0.0 = "Some videoA" and ?videos0.0 = None and additional = None]
  have a: "processRequest env0 (roomQueued, effects0) (UndoRequest ''1'' (SeekRequest ''1'' (Some 50)) (Some seekContext))
       = (Some PermissionDenied, roomQueued,
          effects0\<lparr>checked := checked effects0 @ [(getRole roomQueued user1, Some ''playback.seek'')]\<rparr>)"
    using T g1 by blast
  have b: "processRequest env0 (roomQueued, effects0)
         (UndoRequest ''1'' (AddRequest ''1'' None (Some videoA) None) None)
       = (Some PermissionDenied, roomQueued,
          effects0\<lparr>checked := checked effects0 @ [(getRole roomQueued user1, Some ''manage-queue.remove'')]\<rparr>)"
    using T g2 q by blast
  have c: "processRequest env0 (roomCurrent, effects0)
         (UndoRequest ''1'' (AddRequest ''1'' None (Some videoA) None) None)
       = (None, set_currentSource roomCurrent None, effects0)"
    using T' q' by blast
  show ?thesis
    using a b c h h' g1 g2 q q' by (simp add: getRole_user1 ch)
qed

text \<open>
  Claim C9 as stated fails for the undo of an AddRequest while the queue is empty: the
  participant of \<open>roomCurrent\<close> has no permission at all, and the undo succeeds, clears
  the current source and calls \<^verbatim>\<open>grants.check\<close> not once.
\<close>

theorem undo_add_empty_queue_counterexample:
  "getUser roomCurrent ''1'' = Some user1
   \<and> \<not> granted env0 (grants roomCurrent) (getRole roomCurrent user1) (Some ''manage-queue.remove'')
   \<and> currentSource roomCurrent = Some videoA
   \<and> fst (processRequest env0 (roomCurrent, effects0)
            (UndoRequest ''1'' (AddRequest ''1'' None (Some videoA) None) None)) = None
   \<and> currentSource (fst (snd (processRequest env0 (roomCurrent, effects0)
            (UndoRequest ''1'' (AddRequest ''1'' None (Some videoA) None) None)))) = None
   \<and> checked (snd (snd (processRequest env0 (roomCurrent, effects0)
            (UndoRequest ''1'' (AddRequest ''1'' None (Some videoA) None) None)))) = []"
  by code_simp

text \<open>
  Claim C10: a LeaveRequest whose client id matches no participant leaves the room
  unchanged, the users not marked dirty, and still publishes one event for the request,
  with no user in it; \<open>processRequest\<close> does exactly that, with no permission check.
\<close>

theorem leaveRoom_unknown_client:
  assumes "getUser r c = None"
  shows "leaveRoom (r, b) (LeaveRequest c) =
           (None, r, b\<lparr>published := published b @ [(''room:'' @ name r, Event (LeaveRequest c) None None)]\<rparr>)
         \<and> processRequest env (r, b) (LeaveRequest c) = leaveRoom (r, b) (LeaveRequest c)"
proof -
  have "leaveRoom (r, b) (LeaveRequest c) =
          (None, r, b\<lparr>published := published b @ [(''room:'' @ name r, Event (LeaveRequest c) None None)]\<rparr>)"
    using getUser_None_list_ex [OF assms] getUserInfo_None [OF assms]
    by (simp add: leaveRoom_def publishRoomEvent_def publish_def)
  moreover have "processRequest env (r, b) (LeaveRequest c) = leaveRoom (r, b) (LeaveRequest c)"
    by (simp add: processRequest_handlers checkPermission_none handlers_def)
  ultimately show ?thesis by simp
qed

theorem leaveRoom_unknown_client_witness:
  "getUser (roomJoined deny) ''9'' = None
   \<and> processRequest env0 (roomJoined deny, effects0) (LeaveRequest ''9'')
       = (None, roomJoined deny,
          effects0\<lparr>published := [(''room:test'', Event (LeaveRequest ''9'') None None)]\<rparr>)"
proof -
  have h: "getUser (roomJoined deny) ''9'' = None"
    by (simp add: getUser_def roomJoined_def new_Room_def user1_def)
  have nm: "name (roomJoined deny) = ''test''" by (simp add: roomJoined_def new_Room_def)
  have pb: "published effects0 = []" by (simp add: effects0_def)
  show ?thesis
    using leaveRoom_unknown_client [OF h, where b = effects0 and env = env0] h nm pb by simp
qed

end
